theory Spec2Isabelle
  imports Complex_Main "HOL-Library.Sublist"
begin

section \<open>Python values\<close>

text \<open>
  The food search and categorisation pipeline of the Diet-Plan-Assistant
  (\<^verbatim>\<open>usda_service.py\<close>, \<^verbatim>\<open>app.py\<close>) is embedded as HOL functions.

  \<^item> A Python \<^verbatim>\<open>str\<close> is a \<open>string\<close>; a \<open>char\<close> stands for a code point in the range
    U+0000 to U+00FF, and \<^verbatim>\<open>str.lower\<close>, \<^verbatim>\<open>str.strip\<close> and \<^verbatim>\<open>str.split\<close> are modelled
    on that range.
  \<^item> A Python number (an \<^verbatim>\<open>int\<close> or a \<^verbatim>\<open>float\<close> decoded from JSON) is an exact rational:
    the arithmetic of the model is exact, binary rounding of floats is not modelled, and
    the non-standard JSON numbers \<^verbatim>\<open>NaN\<close> and \<^verbatim>\<open>Infinity\<close> are left out.
  \<^item> An exception is a value of type \<open>exn\<close>; a computation that may raise returns
    \<open>exn + 'a\<close>, with \<open>Inl\<close> for the exception.
\<close>

datatype exn = RequestException | ValueError | AttributeError | TypeError

fun exn_bind :: "exn + 'a \<Rightarrow> ('a \<Rightarrow> exn + 'b) \<Rightarrow> exn + 'b" where
  "exn_bind (Inl e) f = Inl e"
| "exn_bind (Inr x) f = f x"

text \<open>What \<^verbatim>\<open>response.json()\<close> decodes to: \<^verbatim>\<open>None\<close>, a bool, a number, a string, a list
  or a dict (the items of the dict in order, its keys distinct).\<close>

datatype json =
    JNull
  | JBool bool
  | JNum rat
  | JStr string
  | JArr "json list"
  | JObj "(string \<times> json) list"

text \<open>\<^verbatim>\<open>x.get(key, default)\<close>: only a dict has the method.\<close>

fun py_get :: "json \<Rightarrow> string \<Rightarrow> json \<Rightarrow> exn + json" where
  "py_get (JObj kvs) k d = Inr (case map_of kvs k of Some v \<Rightarrow> v | None \<Rightarrow> d)"
| "py_get _ k d = Inl AttributeError"

text \<open>\<^verbatim>\<open>for x in v\<close>: a list yields its elements, a string its characters, a dict its keys;
  nothing else is iterable.\<close>

fun py_iter :: "json \<Rightarrow> exn + json list" where
  "py_iter (JArr xs) = Inr xs"
| "py_iter (JStr s) = Inr (map (\<lambda>c. JStr [c]) s)"
| "py_iter (JObj kvs) = Inr (map (\<lambda>kv. JStr (fst kv)) kvs)"
| "py_iter _ = Inl TypeError"

section \<open>Strings\<close>

definition py_isspace :: "char \<Rightarrow> bool" where
  "py_isspace c =
     (let n = (of_char c :: nat)
      in (9 \<le> n \<and> n \<le> 13) \<or> (28 \<le> n \<and> n \<le> 32) \<or> n = 133 \<or> n = 160)"

text \<open>\<^verbatim>\<open>str.lower\<close> on one character: an upper-case letter (\<^verbatim>\<open>A\<close> to \<^verbatim>\<open>Z\<close>, and U+00C0 to U+00DE
  without U+00D7) moves up by 32; in these ranges bit 5 is clear, so adding 32 sets it.\<close>

fun add32 :: "char \<Rightarrow> char" where
  "add32 (Char b0 b1 b2 b3 b4 b5 b6 b7) = Char b0 b1 b2 b3 b4 True b6 b7"

definition py_lower_char :: "char \<Rightarrow> char" where
  "py_lower_char c =
     (let n = (of_char c :: nat)
      in if (65 \<le> n \<and> n \<le> 90) \<or> (192 \<le> n \<and> n \<le> 214) \<or> (216 \<le> n \<and> n \<le> 222)
         then add32 c else c)"

definition lower :: "string \<Rightarrow> string" where
  "lower s = map py_lower_char s"

definition strip :: "string \<Rightarrow> string" where
  "strip s = rev (dropWhile py_isspace (rev (dropWhile py_isspace s)))"

text \<open>\<^verbatim>\<open>s.split()\<close>: the maximal runs of non-whitespace characters; the first argument is
  the word read so far.\<close>

fun split_aux :: "string \<Rightarrow> string \<Rightarrow> string list" where
  "split_aux w [] = (if w = [] then [] else [w])"
| "split_aux w (c # cs) =
     (if py_isspace c then (if w = [] then split_aux [] cs else w # split_aux [] cs)
      else split_aux (w @ [c]) cs)"

definition py_split :: "string \<Rightarrow> string list" where
  "py_split s = split_aux [] s"

text \<open>\<^verbatim>\<open>' '.join(ws)\<close>\<close>

fun join_space :: "string list \<Rightarrow> string" where
  "join_space [] = []"
| "join_space [w] = w"
| "join_space (w # v # ws) = w @ '' '' @ join_space (v # ws)"

text \<open>\<^verbatim>\<open>s.replace(old, '')\<close> for a non-empty \<open>old\<close>: the occurrences of \<open>old\<close> are removed from
  left to right, without overlap; the counter is the number of characters of the current
  occurrence still to drop.\<close>

fun replace_aux :: "string \<Rightarrow> nat \<Rightarrow> string \<Rightarrow> string" where
  "replace_aux old k [] = []"
| "replace_aux old (Suc k) (c # cs) = replace_aux old k cs"
| "replace_aux old 0 (c # cs) =
     (if old \<noteq> [] \<and> prefix old (c # cs) then replace_aux old (length old - 1) cs
      else c # replace_aux old 0 cs)"

definition replace_empty :: "string \<Rightarrow> string \<Rightarrow> string" where
  "replace_empty old s = replace_aux old 0 s"

section \<open>QueryNormalizer: \<^verbatim>\<open>_clean_query\<close> and \<^verbatim>\<open>_simplify_query\<close>\<close>

text \<open>The query is a string or \<^verbatim>\<open>None\<close>.\<close>

fun clean_query :: "string option \<Rightarrow> string option" where
  "clean_query None = None"
| "clean_query (Some q) =
     (if q = [] then None
      else let cleaned = join_space (py_split (strip q))
           in if length cleaned < 2 then None else Some cleaned)"

definition descriptors :: "string list" where
  "descriptors =
     ['', raw'', '', cooked'', '', boiled'', '', baked'', '', fried'',
      '', grilled'', '', roasted'', '', steamed'', '', fresh'', '', dried'',
      ''raw '', ''cooked '', ''boiled '', ''baked '', ''fried '',
      ''grilled '', ''roasted '', ''steamed '', ''fresh '', ''dried '']"

definition simplify_query :: "string \<Rightarrow> string" where
  "simplify_query q = strip (foldl (\<lambda>simplified descriptor. replace_empty descriptor simplified)
                                (lower q) descriptors)"

section \<open>Nutrient extraction: \<^verbatim>\<open>_extract_nutrients\<close>\<close>

text \<open>\<^verbatim>\<open>round(x, d)\<close> on exact values: to \<open>d\<close> decimal places, a tie to the even
  neighbour.\<close>

definition py_round :: "rat \<Rightarrow> nat \<Rightarrow> rat" where
  "py_round x d =
     (let s = 10 ^ d; y = x * s; f = \<lfloor>y\<rfloor>; r = y - of_int f;
          k = (if r < 1 / 2 then f else if 1 / 2 < r then f + 1
               else if even f then f else f + 1)
      in of_int k / s)"

text \<open>\<^verbatim>\<open>round(value, d)\<close> on a decoded value: a bool rounds as the integer it is, and
  anything that is not a number raises.\<close>

fun round_value :: "json \<Rightarrow> nat \<Rightarrow> exn + rat" where
  "round_value (JNum x) d = Inr (py_round x d)"
| "round_value (JBool b) d = Inr (if b then 1 else 0)"
| "round_value _ d = Inl TypeError"

text \<open>\<^verbatim>\<open>value is None or value == 0\<close>\<close>

fun none_or_zero :: "json \<Rightarrow> bool" where
  "none_or_zero JNull = True"
| "none_or_zero (JNum x) = (x = 0)"
| "none_or_zero (JBool b) = (\<not> b)"
| "none_or_zero _ = False"

definition nutrient_mapping :: "rat \<rightharpoonup> string" where
  "nutrient_mapping =
     [1003 \<mapsto> ''protein'', 1004 \<mapsto> ''fat'', 1005 \<mapsto> ''carbs'', 1008 \<mapsto> ''calories'']"

text \<open>\<^verbatim>\<open>nutrient_id in nutrient_mapping\<close> with the key it maps to: a list or a dict is not
  hashable; \<^verbatim>\<open>True\<close> hashes as 1 and \<^verbatim>\<open>False\<close> as 0.\<close>

fun lookup_id :: "json \<Rightarrow> exn + string option" where
  "lookup_id (JNum x) = Inr (nutrient_mapping x)"
| "lookup_id (JBool b) = Inr (nutrient_mapping (if b then 1 else 0))"
| "lookup_id (JArr xs) = Inl TypeError"
| "lookup_id (JObj kvs) = Inl TypeError"
| "lookup_id _ = Inr None"

text \<open>\<^verbatim>\<open>s.lower()\<close> and \<^verbatim>\<open>s.strip()\<close> on a decoded value: only a string has the methods.\<close>

fun str_lower :: "json \<Rightarrow> exn + string" where
  "str_lower (JStr s) = Inr (lower s)"
| "str_lower _ = Inl AttributeError"

fun str_strip :: "json \<Rightarrow> exn + string" where
  "str_strip (JStr s) = Inr (strip s)"
| "str_strip _ = Inl AttributeError"

type_synonym nutrient_dict = "string \<rightharpoonup> rat"

text \<open>The body of the loop over \<^verbatim>\<open>nutrients_list\<close>, on the dict built so far.\<close>

definition extract_step :: "json \<Rightarrow> nutrient_dict \<Rightarrow> exn + nutrient_dict" where
  "extract_step nutrient nutrients =
     exn_bind (py_get nutrient ''nutrientId'' JNull) (\<lambda>nutrient_id.
     exn_bind (py_get nutrient ''nutrientName'' (JStr [])) (\<lambda>nm.
     exn_bind (str_lower nm) (\<lambda>nutrient_name.
     exn_bind (py_get nutrient ''value'' (JNum 0)) (\<lambda>v.
       if none_or_zero v then Inr nutrients
       else exn_bind (lookup_id nutrient_id) (\<lambda>found.
         case found of
           Some key \<Rightarrow>
             if key = ''calories''
             then exn_bind (round_value v 0) (\<lambda>x. Inr (nutrients(key \<mapsto> x)))
             else exn_bind (round_value v 1) (\<lambda>x. Inr (nutrients(key \<mapsto> x)))
         | None \<Rightarrow>
             if sublist ''protein'' nutrient_name \<and> nutrients ''protein'' = None
             then exn_bind (round_value v 1) (\<lambda>x. Inr (nutrients(''protein'' \<mapsto> x)))
             else if sublist ''carbohydrate'' nutrient_name \<and> nutrients ''carbs'' = None
             then exn_bind (round_value v 1) (\<lambda>x. Inr (nutrients(''carbs'' \<mapsto> x)))
             else if (sublist ''total lipid'' nutrient_name \<or> sublist ''fat, total'' nutrient_name)
                     \<and> nutrients ''fat'' = None
             then exn_bind (round_value v 1) (\<lambda>x. Inr (nutrients(''fat'' \<mapsto> x)))
             else if sublist ''energy'' nutrient_name \<and> nutrients ''calories'' = None
             then exn_bind (round_value v 0) (\<lambda>x. Inr (nutrients(''calories'' \<mapsto> x)))
             else Inr nutrients)))))"

fun extract_loop :: "json list \<Rightarrow> nutrient_dict \<Rightarrow> exn + nutrient_dict" where
  "extract_loop [] nutrients = Inr nutrients"
| "extract_loop (nutrient # rest) nutrients =
     (case extract_step nutrient nutrients of
        Inl e \<Rightarrow> Inl e
      | Inr nutrients' \<Rightarrow> extract_loop rest nutrients')"

text \<open>\<^verbatim>\<open>if key not in nutrients: nutrients[key] = 0\<close>\<close>

definition default_zero :: "string \<Rightarrow> nutrient_dict \<Rightarrow> nutrient_dict" where
  "default_zero key nutrients = (if nutrients key = None then nutrients(key \<mapsto> 0) else nutrients)"

definition extract_nutrients :: "json \<Rightarrow> exn + nutrient_dict" where
  "extract_nutrients nutrients_list =
     exn_bind (py_iter nutrients_list) (\<lambda>ns.
     exn_bind (extract_loop ns Map.empty) (\<lambda>nutrients.
       Inr (foldl (\<lambda>m key. default_zero key m) nutrients
              [''calories'', ''protein'', ''carbs'', ''fat''])))"





section \<open>Parsing a response: \<^verbatim>\<open>_parse_food_data\<close>\<close>

record food =
  name :: string
  nutrients :: nutrient_dict
  fdcId :: json
  dataType :: json

text \<open>\<^verbatim>\<open>not nutrients.get(key)\<close>: the key is missing or its value is 0.\<close>

definition falsy :: "nutrient_dict \<Rightarrow> string \<Rightarrow> bool" where
  "falsy m key = (case m key of None \<Rightarrow> True | Some x \<Rightarrow> x = 0)"

text \<open>The body of the loop over the entries, up to the decision: \<open>None\<close> is
  \<^verbatim>\<open>continue\<close>, \<open>Some f\<close> is the record that is appended.\<close>

definition parse_entry :: "json \<Rightarrow> string set \<Rightarrow> exn + food option" where
  "parse_entry fd seen_names =
     exn_bind (py_get fd ''description'' (JStr [])) (\<lambda>d.
     exn_bind (str_strip d) (\<lambda>description.
       if description = [] then Inr None
       else if lower description \<in> seen_names then Inr None
       else exn_bind (py_get fd ''foodNutrients'' (JArr [])) (\<lambda>nl.
            exn_bind (extract_nutrients nl) (\<lambda>ns.
              if falsy ns ''calories'' \<and> falsy ns ''protein'' then Inr None
              else exn_bind (py_get fd ''fdcId'' JNull) (\<lambda>fid.
                   exn_bind (py_get fd ''dataType'' (JStr ''Unknown'')) (\<lambda>dt.
                     Inr (Some \<lparr>name = description, nutrients = ns,
                                 fdcId = fid, dataType = dt\<rparr>)))))))"

fun parse_loop :: "json list \<Rightarrow> int \<Rightarrow> food list \<Rightarrow> string set \<Rightarrow> exn + food list" where
  "parse_loop [] max_results foods seen_names = Inr foods"
| "parse_loop (fd # rest) max_results foods seen_names =
     (case parse_entry fd seen_names of
        Inl e \<Rightarrow> Inl e
      | Inr None \<Rightarrow> parse_loop rest max_results foods seen_names
      | Inr (Some f) \<Rightarrow>
          (let foods' = foods @ [f]
           in if max_results \<le> int (length foods') then Inr foods'
              else parse_loop rest max_results foods' (insert (lower (name f)) seen_names)))"

definition parse_food_data :: "json \<Rightarrow> int \<Rightarrow> exn + food list" where
  "parse_food_data response_data max_results =
     exn_bind (py_get response_data ''foods'' (JArr [])) (\<lambda>fs.
     exn_bind (py_iter fs) (\<lambda>entries. parse_loop entries max_results [] {}))"

text \<open>The entries of a response body, as the loop of \<^verbatim>\<open>_parse_food_data\<close> reads them, and
  the name the loop gives an entry: its stripped description, empty when there is none.\<close>

definition response_entries :: "json \<Rightarrow> exn + json list" where
  "response_entries body = exn_bind (py_get body ''foods'' (JArr [])) py_iter"

definition entry_name :: "json \<Rightarrow> string" where
  "entry_name fd =
     (case exn_bind (py_get fd ''description'' (JStr [])) str_strip of
        Inr description \<Rightarrow> description
      | Inl e \<Rightarrow> [])"

section \<open>One search: \<^verbatim>\<open>_search_with_params\<close>\<close>

text \<open>The parameters of one GET request (the API key and the timeout are constants of the
  configuration and are left out). \<open>query_param\<close> is the parameter \<^verbatim>\<open>query\<close> and \<open>dataType_param\<close> the parameter
  \<^verbatim>\<open>dataType\<close>, \<open>None\<close> when the request carries none.\<close>

record request =
  query_param :: string
  pageSize :: int
  requireAllWords :: bool
  dataType_param :: "string list option"

text \<open>What \<^verbatim>\<open>requests.get\<close> returns: the status code, and what \<^verbatim>\<open>response.json()\<close> gives, the
  decoded body or the exception it raises on a body that is not JSON.\<close>

record response =
  status_code :: int
  json_body :: "exn + json"

text \<open>The external API: the answer to a request, given the requests made before it, is a
  response or the exception that \<^verbatim>\<open>requests.get\<close> raises (a network failure, a timeout).\<close>

type_synonym backend = "request list \<Rightarrow> request \<Rightarrow> exn + response"

text \<open>\<^verbatim>\<open>except requests.exceptions.RequestException: return []\<close>\<close>

fun catch_request_exception :: "exn + food list \<Rightarrow> exn + food list" where
  "catch_request_exception (Inl e) = (if e = RequestException then Inr [] else Inl e)"
| "catch_request_exception (Inr foods) = Inr foods"

text \<open>\<^verbatim>\<open>if data_types: params["dataType"] = data_types\<close>\<close>

fun truthy_types :: "string list option \<Rightarrow> string list option" where
  "truthy_types None = None"
| "truthy_types (Some ts) = (if ts = [] then None else Some ts)"

text \<open>The result, and the requests made so far with those of this call appended.\<close>

definition search_with_params ::
  "backend \<Rightarrow> request list \<Rightarrow> string \<Rightarrow> int \<Rightarrow> string list option \<Rightarrow> bool
     \<Rightarrow> (exn + food list) \<times> request list" where
  "search_with_params api calls q max_results data_types require_all_words =
     (let params = \<lparr>query_param = q, pageSize = min (max_results * 2) 50,
                     requireAllWords = require_all_words,
                     dataType_param = truthy_types data_types\<rparr>;
          calls1 = calls @ [params]
      in case api calls params of
           Inl e \<Rightarrow> (catch_request_exception (Inl e), calls1)
         | Inr response \<Rightarrow>
             if status_code response = 200
             then (catch_request_exception
                     (exn_bind (json_body response) (\<lambda>data. parse_food_data data max_results)),
                   calls1)
             else if status_code response = 400 \<and> require_all_words
             then (let params2 = params\<lparr>requireAllWords := False\<rparr>;
                       calls2 = calls1 @ [params2]
                   in case api calls1 params2 of
                        Inl e \<Rightarrow> (catch_request_exception (Inl e), calls2)
                      | Inr response2 \<Rightarrow>
                          if status_code response2 = 200
                          then (catch_request_exception
                                  (exn_bind (json_body response2)
                                     (\<lambda>data. parse_food_data data max_results)),
                                calls2)
                          else (Inr [], calls2))
             else (Inr [], calls1))"

section \<open>The cascade: \<^verbatim>\<open>search_foods\<close>\<close>

text \<open>A strategy is the argument list of one call of \<^verbatim>\<open>_search_with_params\<close>: the query, the
  data types and \<^verbatim>\<open>require_all_words\<close>.\<close>

type_synonym strategy = "string \<times> string list option \<times> bool"

definition search_strategies :: "string \<Rightarrow> strategy list" where
  "search_strategies cleaned_query =
     [(cleaned_query, Some [''SR Legacy''], True),
      (cleaned_query, Some [''Foundation''], True),
      (cleaned_query, Some [''SR Legacy'', ''Foundation'', ''Survey (FNDDS)''], False),
      (cleaned_query, None, False),
      (simplify_query cleaned_query, None, False)]"

definition run_strategy ::
  "backend \<Rightarrow> int \<Rightarrow> request list \<Rightarrow> strategy \<Rightarrow> (exn + food list) \<times> request list" where
  "run_strategy api max_results calls s =
     (case s of (q, data_types, require_all_words) \<Rightarrow>
        search_with_params api calls q max_results data_types require_all_words)"

text \<open>The loop over the strategies: a strategy that raises or returns an empty list is
  followed by the next one; after the last one the result is the empty list.\<close>

fun try_strategies ::
  "backend \<Rightarrow> int \<Rightarrow> strategy list \<Rightarrow> request list \<Rightarrow> (exn + food list) \<times> request list" where
  "try_strategies api max_results [] calls = (Inr [], calls)"
| "try_strategies api max_results (s # rest) calls =
     (case run_strategy api max_results calls s of
        (Inl e, calls') \<Rightarrow> try_strategies api max_results rest calls'
      | (Inr foods, calls') \<Rightarrow>
          if foods \<noteq> [] then (Inr foods, calls')
          else try_strategies api max_results rest calls')"

text \<open>\<^verbatim>\<open>search_foods(query, max_results)\<close>: the result and the requests it made.\<close>

definition search_foods ::
  "backend \<Rightarrow> string option \<Rightarrow> int \<Rightarrow> (exn + food list) \<times> request list" where
  "search_foods api query max_results =
     (case query of
        None \<Rightarrow> (Inr [], [])
      | Some q \<Rightarrow>
          if q = [] \<or> strip q = [] then (Inr [], [])
          else case clean_query (Some q) of
                 None \<Rightarrow> (Inr [], [])
               | Some cleaned_query \<Rightarrow>
                   try_strategies api max_results (search_strategies cleaned_query) [])"

text \<open>A strategy yields nothing when it raises or returns the empty list.\<close>

definition yields_nothing :: "exn + food list \<Rightarrow> bool" where
  "yields_nothing r = (case r of Inl e \<Rightarrow> True | Inr foods \<Rightarrow> foods = [])"

text \<open>The requests made once all the given strategies have run, one after the other.\<close>

fun run_all :: "backend \<Rightarrow> int \<Rightarrow> strategy list \<Rightarrow> request list \<Rightarrow> request list" where
  "run_all api max_results [] calls = calls"
| "run_all api max_results (s # rest) calls =
     run_all api max_results rest (snd (run_strategy api max_results calls s))"

text \<open>The run of strategy number \<open>i\<close> (from 0) when the strategies before it have all run.\<close>

definition stage ::
  "backend \<Rightarrow> int \<Rightarrow> strategy list \<Rightarrow> request list \<Rightarrow> nat
     \<Rightarrow> (exn + food list) \<times> request list" where
  "stage api max_results ss calls i =
     run_strategy api max_results (run_all api max_results (take i ss) calls) (ss ! i)"

section \<open>FoodClassifier: \<^verbatim>\<open>categorize_food_by_nutrients\<close> and \<^verbatim>\<open>categorize_food\<close>\<close>

text \<open>\<^verbatim>\<open>any(keyword in name_lower for keyword in keywords)\<close>\<close>

definition any_keyword :: "string list \<Rightarrow> string \<Rightarrow> bool" where
  "any_keyword keywords name_lower = list_ex (\<lambda>keyword. sublist keyword name_lower) keywords"

text \<open>\<^verbatim>\<open>nutrients.get(key, 0)\<close>\<close>

definition get0 :: "nutrient_dict \<Rightarrow> string \<Rightarrow> rat" where
  "get0 m key = (case m key of None \<Rightarrow> 0 | Some x \<Rightarrow> x)"

subsection \<open>\<^verbatim>\<open>app.py\<close>\<close>

definition protein_keywords :: "string list" where
  "protein_keywords =
     [''chicken'', ''beef'', ''pork'', ''fish'', ''salmon'', ''tuna'', ''turkey'', ''duck'',
      ''egg'', ''tofu'', ''tempeh'', ''seitan'', ''lentil'', ''bean'', ''chickpea'', ''pea'',
      ''yogurt'', ''cottage cheese'', ''protein'', ''meat'', ''shrimp'', ''crab'', ''lobster'',
      ''lamb'', ''veal'', ''venison'', ''bison'', ''quail'', ''sardine'', ''mackerel'']"

definition carb_keywords :: "string list" where
  "carb_keywords =
     [''rice'', ''pasta'', ''bread'', ''potato'', ''sweet potato'', ''yam'', ''oat'', ''oatmeal'',
      ''quinoa'', ''barley'', ''wheat'', ''corn'', ''cereal'', ''noodle'', ''spaghetti'',
      ''tortilla'', ''bagel'', ''muffin'', ''cracker'', ''couscous'', ''bulgur'', ''farro'']"

definition vegetable_keywords :: "string list" where
  "vegetable_keywords =
     [''broccoli'', ''spinach'', ''kale'', ''lettuce'', ''tomato'', ''cucumber'', ''pepper'',
      ''carrot'', ''celery'', ''onion'', ''garlic'', ''mushroom'', ''zucchini'', ''squash'',
      ''cauliflower'', ''cabbage'', ''bok choy'', ''asparagus'', ''green bean'', ''brussels'',
      ''eggplant'', ''radish'', ''beet'', ''turnip'', ''arugula'', ''chard'', ''collard'']"

definition fat_keywords :: "string list" where
  "fat_keywords =
     [''oil'', ''butter'', ''avocado'', ''nut'', ''almond'', ''walnut'', ''cashew'', ''pecan'',
      ''peanut'', ''seed'', ''olive'', ''coconut'', ''cheese'', ''cream'', ''mayo'', ''ghee'']"

text \<open>The fallback on the nutrient profile, reached when no keyword matches.\<close>

definition nutrient_fallback :: "rat \<Rightarrow> rat \<Rightarrow> rat \<Rightarrow> rat \<Rightarrow> string" where
  "nutrient_fallback protein carbs fat calories =
     (if 0 < calories then
        (let protein_cal_pct = (if 0 < calories then (protein * 4) / calories else 0);
             carbs_cal_pct = (if 0 < calories then (carbs * 4) / calories else 0);
             fat_cal_pct = (if 0 < calories then (fat * 9) / calories else 0)
         in if 3 / 10 < protein_cal_pct then ''proteins''
            else if 1 / 2 < fat_cal_pct then ''fats''
            else if 4 / 10 < carbs_cal_pct then ''carbs''
            else if carbs < 10 \<and> calories < 50 then ''vegetables''
            else ''proteins'')
      else ''proteins'')"

definition categorize_food_by_nutrients :: "food \<Rightarrow> string" where
  "categorize_food_by_nutrients fd =
     (let name_lower = lower (name fd);
          ns = nutrients fd;
          protein = get0 ns ''protein'';
          carbs = get0 ns ''carbs'';
          fat = get0 ns ''fat'';
          calories = get0 ns ''calories''
      in if any_keyword protein_keywords name_lower then ''proteins''
         else if any_keyword carb_keywords name_lower then ''carbs''
         else if any_keyword vegetable_keywords name_lower then ''vegetables''
         else if any_keyword fat_keywords name_lower then ''fats''
         else nutrient_fallback protein carbs fat calories)"

subsection \<open>\<^verbatim>\<open>usda_service.py\<close>\<close>

definition usda_protein_keywords :: "string list" where
  "usda_protein_keywords =
     [''chicken'', ''beef'', ''pork'', ''fish'', ''salmon'', ''tuna'', ''turkey'',
      ''egg'', ''tofu'', ''tempeh'', ''seitan'', ''lentil'', ''bean'', ''chickpea'',
      ''yogurt'', ''cottage cheese'', ''protein'', ''meat'', ''shrimp'', ''crab'',
      ''lobster'', ''duck'', ''lamb'', ''veal'', ''venison'']"

definition usda_carb_keywords :: "string list" where
  "usda_carb_keywords =
     [''rice'', ''pasta'', ''bread'', ''potato'', ''sweet potato'', ''yam'',
      ''oat'', ''quinoa'', ''barley'', ''wheat'', ''corn'', ''cereal'',
      ''noodle'', ''tortilla'', ''bagel'', ''muffin'', ''cracker'']"

definition usda_vegetable_keywords :: "string list" where
  "usda_vegetable_keywords =
     [''broccoli'', ''spinach'', ''kale'', ''lettuce'', ''tomato'', ''cucumber'',
      ''pepper'', ''carrot'', ''celery'', ''onion'', ''garlic'', ''mushroom'',
      ''zucchini'', ''squash'', ''cauliflower'', ''cabbage'', ''bok choy'',
      ''asparagus'', ''green bean'', ''pea'', ''brussels sprout'', ''eggplant'']"

definition usda_fat_keywords :: "string list" where
  "usda_fat_keywords =
     [''oil'', ''butter'', ''avocado'', ''nut'', ''almond'', ''walnut'', ''cashew'',
      ''peanut'', ''seed'', ''olive'', ''coconut'', ''cheese'', ''cream'']"

definition categorize_food :: "string \<Rightarrow> string" where
  "categorize_food food_name =
     (let name_lower = lower food_name
      in if any_keyword usda_protein_keywords name_lower then ''proteins''
         else if any_keyword usda_carb_keywords name_lower then ''carbs''
         else if any_keyword usda_vegetable_keywords name_lower then ''vegetables''
         else if any_keyword usda_fat_keywords name_lower then ''fats''
         else ''proteins'')"

section \<open>Inputs of the examples\<close>

text \<open>A record named "Mystery Item" with the given calories, protein, carbs and fat.\<close>

definition mystery :: "rat \<Rightarrow> rat \<Rightarrow> rat \<Rightarrow> rat \<Rightarrow> food" where
  "mystery cal p c f = \<lparr>name = ''Mystery Item'',
      nutrients = [''calories'' \<mapsto> cal, ''protein'' \<mapsto> p, ''carbs'' \<mapsto> c, ''fat'' \<mapsto> f],
      fdcId = JNull, dataType = JStr ''Unknown''\<rparr>"

text \<open>The keywords that only one of the two categorisation functions lists.\<close>

definition one_sided_keywords :: "string list" where
  "one_sided_keywords =
     [''pea'', ''bison'', ''quail'', ''sardine'', ''mackerel'',
      ''spaghetti'', ''couscous'', ''bulgur'', ''farro'',
      ''brussels'', ''radish'', ''beet'', ''turnip'', ''arugula'', ''chard'', ''collard'',
      ''pecan'', ''mayo'', ''ghee'']"

text \<open>An API that is unreachable: every request raises a \<^verbatim>\<open>RequestException\<close>.\<close>

definition api_down :: backend where
  "api_down calls req = Inl RequestException"

text \<open>An API whose client library fails with an exception that is not a
  \<^verbatim>\<open>RequestException\<close>.\<close>

definition api_crash :: backend where
  "api_crash calls req = Inl ValueError"

text \<open>One nutrient of an entry, and an entry with its nutrients.\<close>

definition nutrient :: "rat \<Rightarrow> string \<Rightarrow> rat \<Rightarrow> json" where
  "nutrient i nm v =
     JObj [(''nutrientId'', JNum i), (''nutrientName'', JStr nm), (''value'', JNum v)]"

definition entry :: "string \<Rightarrow> json list \<Rightarrow> json" where
  "entry d ns = JObj [(''description'', JStr d), (''fdcId'', JNum 1),
                      (''dataType'', JStr ''SR Legacy''), (''foodNutrients'', JArr ns)]"

text \<open>The response of the deduplication example, each entry with a calories value.\<close>

definition chicken_body :: json where
  "chicken_body = JObj [(''foods'', JArr
     [entry ''Chicken Breast, raw'' [nutrient 1008 ''Energy'' 120],
      entry ''chicken breast, RAW'' [nutrient 1008 ''Energy'' 120],
      entry ''Eggs'' [nutrient 1008 ''Energy'' 143]])]"

text \<open>An API that answers every request with status 200 and the given body, and one that
  answers 400 to any request with \<^verbatim>\<open>requireAllWords\<close> set.\<close>

definition api_ok :: "json \<Rightarrow> backend" where
  "api_ok body calls req = Inr \<lparr>status_code = 200, json_body = Inr body\<rparr>"

definition api_strict :: "json \<Rightarrow> backend" where
  "api_strict body calls req =
     (if requireAllWords req then Inr \<lparr>status_code = 400, json_body = Inl ValueError\<rparr>
      else Inr \<lparr>status_code = 200, json_body = Inr body\<rparr>)"




section \<open>Evaluation\<close>

lemmas string_eval =
  lower_def py_lower_char_def py_isspace_def strip_def py_split_def sublist_code
  any_keyword_def replace_empty_def Let_def

lemmas app_keywords =
  protein_keywords_def carb_keywords_def vegetable_keywords_def fat_keywords_def

lemmas usda_keywords =
  usda_protein_keywords_def usda_carb_keywords_def usda_vegetable_keywords_def
  usda_fat_keywords_def

lemmas search_eval =
  search_foods_def search_strategies_def run_strategy_def search_with_params_def
  api_ok_def api_strict_def api_crash_def api_down_def chicken_body_def

lemmas parse_eval =
  parse_food_data_def parse_entry_def extract_nutrients_def extract_step_def
  nutrient_mapping_def default_zero_def falsy_def py_round_def
  entry_def nutrient_def

section \<open>Unusable queries\<close>

lemma strip_whitespace_only: "\<forall>c\<in>set s. py_isspace c \<Longrightarrow> strip s = []"
  by (auto simp add: strip_def dest: set_dropWhileD)

lemma clean_query_whitespace_only:
  "\<forall>c\<in>set s. py_isspace c \<Longrightarrow> clean_query (Some s) = None"
  by (simp add: strip_whitespace_only py_split_def)

lemma clean_query_None_iff:
  "clean_query q = None \<longleftrightarrow>
     q = None \<or> q = Some [] \<or> length (join_space (py_split (strip (the q)))) < 2"
  by (cases q) (auto simp add: Let_def)

lemma clean_query_examples:
  "clean_query (Some ''  a '') = None"
  "clean_query (Some ''  chicken   breast '') = Some ''chicken breast''"
  by (simp_all add: string_eval)

text \<open>
  \<^bold>\<open>C7.\<close> For every query \<open>q\<close> that \<^verbatim>\<open>_clean_query\<close> rejects (\<open>q\<close> is absent or empty, consists
  of whitespace, or has fewer than 2 characters once its whitespace runs are collapsed and
  its ends trimmed), \<^verbatim>\<open>search_foods\<close> returns the empty list and makes no request.
\<close>

theorem search_foods_unusable_query:
  "clean_query q = None \<Longrightarrow> search_foods api q n = (Inr [], [])"
  by (cases q) (auto simp add: search_foods_def Let_def split: if_splits)

theorem search_foods_unusable_query_witness:
  "clean_query (Some ''  a '') = None
   \<and> search_foods api_down (Some ''  a '') 10 = (Inr [], [])"
proof -
  have h: "clean_query (Some ''  a '') = None"
    by (simp add: string_eval)
  from search_foods_unusable_query [OF h] h show ?thesis by simp
qed

section \<open>Categorisation\<close>





lemma keyword_examples:
  "categorize_food_by_nutrients
     \<lparr>name = ''Grilled Chicken Breast'', nutrients = ns, fdcId = i, dataType = d\<rparr> = ''proteins''"
  "categorize_food_by_nutrients
     \<lparr>name = ''Steamed Broccoli'', nutrients = ns, fdcId = i, dataType = d\<rparr> = ''vegetables''"
  "categorize_food_by_nutrients
     \<lparr>name = ''Olive Oil'', nutrients = ns, fdcId = i, dataType = d\<rparr> = ''fats''"
  "categorize_food_by_nutrients
     \<lparr>name = ''Brown Rice'', nutrients = ns, fdcId = i, dataType = d\<rparr> = ''carbs''"
  by (simp_all add: categorize_food_by_nutrients_def string_eval app_keywords)

lemma keyword_examples_usda:
  "categorize_food ''Grilled Chicken Breast'' = ''proteins''"
  "categorize_food ''Steamed Broccoli'' = ''vegetables''"
  "categorize_food ''Olive Oil'' = ''fats''"
  "categorize_food ''Brown Rice'' = ''carbs''"
  by (simp_all add: categorize_food_def string_eval usda_keywords)

text \<open>
  \<^bold>\<open>C5.\<close> The claim expects the category fats for "Peanut Butter". The name contains the
  keyword \<^verbatim>\<open>pea\<close>, which \<^verbatim>\<open>app.py\<close> lists among the protein keywords and
  \<^verbatim>\<open>usda_service.py\<close> among the vegetable keywords, and both lists are tested before the
  fat keywords: the result is proteins in \<^verbatim>\<open>app.py\<close> and vegetables in \<^verbatim>\<open>usda_service.py\<close>,
  whatever the nutrients.
\<close>

theorem peanut_butter_category:
  "categorize_food_by_nutrients
     \<lparr>name = ''Peanut Butter'', nutrients = ns, fdcId = i, dataType = d\<rparr> = ''proteins''
   \<and> categorize_food ''Peanut Butter'' = ''vegetables''"
  by (simp add: categorize_food_by_nutrients_def categorize_food_def string_eval
        protein_keywords_def usda_protein_keywords_def usda_carb_keywords_def
        usda_vegetable_keywords_def)

lemma sublist_oatmeal: "sublist ''oatmeal'' s \<Longrightarrow> sublist ''oat'' s"
proof -
  have "sublist ''oat'' ''oatmeal''" by (simp add: sublist_code)
  then show "sublist ''oatmeal'' s \<Longrightarrow> sublist ''oat'' s"
    using sublist_order.order_trans by blast
qed

lemma sublist_brussels: "sublist ''brussels sprout'' s \<Longrightarrow> sublist ''brussels'' s"
proof -
  have "sublist ''brussels'' ''brussels sprout''" by (simp add: sublist_code)
  then show "sublist ''brussels sprout'' s \<Longrightarrow> sublist ''brussels'' s"
    using sublist_order.order_trans by blast
qed

lemma shared_keywords:
  assumes "\<not> any_keyword one_sided_keywords s"
  shows "any_keyword protein_keywords s = any_keyword usda_protein_keywords s"
    and "any_keyword carb_keywords s = any_keyword usda_carb_keywords s"
    and "any_keyword vegetable_keywords s = any_keyword usda_vegetable_keywords s"
    and "any_keyword fat_keywords s = any_keyword usda_fat_keywords s"
proof -
  from assms have no: "\<not> sublist ''pea'' s" "\<not> sublist ''bison'' s" "\<not> sublist ''quail'' s"
    "\<not> sublist ''sardine'' s" "\<not> sublist ''mackerel'' s" "\<not> sublist ''spaghetti'' s"
    "\<not> sublist ''couscous'' s" "\<not> sublist ''bulgur'' s" "\<not> sublist ''farro'' s"
    "\<not> sublist ''brussels'' s" "\<not> sublist ''radish'' s" "\<not> sublist ''beet'' s"
    "\<not> sublist ''turnip'' s" "\<not> sublist ''arugula'' s" "\<not> sublist ''chard'' s"
    "\<not> sublist ''collard'' s" "\<not> sublist ''pecan'' s" "\<not> sublist ''mayo'' s"
    "\<not> sublist ''ghee'' s"
    by (simp_all add: any_keyword_def one_sided_keywords_def)
  show "any_keyword protein_keywords s = any_keyword usda_protein_keywords s"
    using no unfolding any_keyword_def protein_keywords_def usda_protein_keywords_def
    by (simp only: list_ex_Cons_iff list_ex_Nil_iff) blast
  show "any_keyword carb_keywords s = any_keyword usda_carb_keywords s"
    using no sublist_oatmeal [of s]
    unfolding any_keyword_def carb_keywords_def usda_carb_keywords_def
    by (simp only: list_ex_Cons_iff list_ex_Nil_iff) blast
  show "any_keyword vegetable_keywords s = any_keyword usda_vegetable_keywords s"
    using no sublist_brussels [of s]
    unfolding any_keyword_def vegetable_keywords_def usda_vegetable_keywords_def
    by (simp only: list_ex_Cons_iff list_ex_Nil_iff) blast
  show "any_keyword fat_keywords s = any_keyword usda_fat_keywords s"
    using no unfolding any_keyword_def fat_keywords_def usda_fat_keywords_def
    by (simp only: list_ex_Cons_iff list_ex_Nil_iff) blast
qed

lemma any_keyword_append:
  "any_keyword (xs @ ys) s = (any_keyword xs s \<or> any_keyword ys s)"
  by (simp add: any_keyword_def)

text \<open>
  \<^bold>\<open>C10\<close>, as stated, fails: \<^verbatim>\<open>categorize_food\<close> sees the name only, so a record without a
  keyword in its name is proteins there, while \<^verbatim>\<open>categorize_food_by_nutrients\<close> goes on to
  the nutrient rules. "Mystery Item" with 100 kcal, 1 g protein, 1 g carbs and 10 g fat is
  proteins for the first and fats for the second.
\<close>

theorem categorizers_disagree:
  "categorize_food (name (mystery 100 1 1 10)) = ''proteins''
   \<and> categorize_food_by_nutrients (mystery 100 1 1 10) = ''fats''"
  by (simp add: mystery_def categorize_food_def categorize_food_by_nutrients_def
        nutrient_fallback_def get0_def string_eval app_keywords usda_keywords)

text \<open>
  \<^bold>\<open>C10\<close>, amended. For every record whose lower-cased name contains none of the keywords
  that only one of the two functions lists, the two functions return the same category
  exactly when the name contains a keyword or the nutrient rules of
  \<^verbatim>\<open>categorize_food_by_nutrients\<close> give proteins.
\<close>

theorem categorizers_agree_on_shared:
  assumes "\<not> any_keyword one_sided_keywords (lower (name fd))"
  shows "categorize_food (name fd) = categorize_food_by_nutrients fd \<longleftrightarrow>
           any_keyword (usda_protein_keywords @ usda_carb_keywords @ usda_vegetable_keywords
                          @ usda_fat_keywords) (lower (name fd))
           \<or> nutrient_fallback (get0 (nutrients fd) ''protein'') (get0 (nutrients fd) ''carbs'')
                (get0 (nutrients fd) ''fat'') (get0 (nutrients fd) ''calories'') = ''proteins''"
  using shared_keywords [OF assms]
  by (auto simp add: categorize_food_def categorize_food_by_nutrients_def Let_def
        any_keyword_append)

theorem categorizers_agree_witness:
  "\<not> any_keyword one_sided_keywords (lower (name (mystery 100 10 2 1)))
   \<and> categorize_food (name (mystery 100 10 2 1))
       = categorize_food_by_nutrients (mystery 100 10 2 1)"
proof -
  have h: "\<not> any_keyword one_sided_keywords (lower (name (mystery 100 10 2 1)))"
    by (simp add: mystery_def one_sided_keywords_def string_eval)
  have "nutrient_fallback (get0 (nutrients (mystery 100 10 2 1)) ''protein'')
          (get0 (nutrients (mystery 100 10 2 1)) ''carbs'')
          (get0 (nutrients (mystery 100 10 2 1)) ''fat'')
          (get0 (nutrients (mystery 100 10 2 1)) ''calories'') = ''proteins''"
    by (simp add: mystery_def nutrient_fallback_def get0_def)
  with categorizers_agree_on_shared [OF h] h show ?thesis by simp
qed

section \<open>The cascade\<close>



lemma try_strategies_step:
  "try_strategies api n (s # ss) calls =
     (if yields_nothing (fst (run_strategy api n calls s))
      then try_strategies api n ss (snd (run_strategy api n calls s))
      else run_strategy api n calls s)"
  by (auto simp add: yields_nothing_def split: prod.splits sum.splits)

lemma stage_0: "stage api n (s # ss) calls 0 = run_strategy api n calls s"
  by (simp add: stage_def)

lemma stage_Suc:
  "stage api n (s # ss) calls (Suc i) = stage api n ss (snd (run_strategy api n calls s)) i"
  by (simp add: stage_def)

lemma try_strategies_cases:
  "(\<exists>k<length ss. (\<forall>i<k. yields_nothing (fst (stage api n ss calls i)))
        \<and> \<not> yields_nothing (fst (stage api n ss calls k))
        \<and> try_strategies api n ss calls = stage api n ss calls k)
   \<or> ((\<forall>i<length ss. yields_nothing (fst (stage api n ss calls i)))
        \<and> try_strategies api n ss calls = (Inr [], run_all api n ss calls))"
proof (induction ss arbitrary: calls)
  case Nil
  show ?case by simp
next
  case (Cons s ss)
  let ?r = "run_strategy api n calls s"
  show ?case
  proof (cases "yields_nothing (fst ?r)")
    case False
    then have "try_strategies api n (s # ss) calls = stage api n (s # ss) calls 0"
      by (simp add: try_strategies_step stage_0 del: try_strategies.simps)
    with False show ?thesis
      by (intro disjI1 exI [of _ 0]) (simp add: stage_0)
  next
    case True
    then have step: "try_strategies api n (s # ss) calls = try_strategies api n ss (snd ?r)"
      by (simp add: try_strategies_step del: try_strategies.simps)
    from Cons.IH [of "snd ?r"] show ?thesis
    proof (elim disjE exE conjE)
      fix k
      assume k: "k < length ss"
        and before: "\<forall>i<k. yields_nothing (fst (stage api n ss (snd ?r) i))"
        and at: "\<not> yields_nothing (fst (stage api n ss (snd ?r) k))"
        and res: "try_strategies api n ss (snd ?r) = stage api n ss (snd ?r) k"
      have "\<forall>i<Suc k. yields_nothing (fst (stage api n (s # ss) calls i))"
        using True before by (auto simp add: less_Suc_eq_0_disj stage_0 stage_Suc)
      with k at res step show ?thesis
        by (intro disjI1 exI [of _ "Suc k"]) (simp add: stage_Suc)
    next
      assume all: "\<forall>i<length ss. yields_nothing (fst (stage api n ss (snd ?r) i))"
        and res: "try_strategies api n ss (snd ?r) = (Inr [], run_all api n ss (snd ?r))"
      have "\<forall>i<length (s # ss). yields_nothing (fst (stage api n (s # ss) calls i))"
        using True all by (auto simp add: less_Suc_eq_0_disj stage_0 stage_Suc)
      with res step show ?thesis by simp
    qed
  qed
qed

lemma clean_query_Some:
  "clean_query q = Some c \<Longrightarrow> \<exists>s. q = Some s \<and> s \<noteq> [] \<and> strip s \<noteq> []"
  by (cases q) (auto simp add: Let_def py_split_def split: if_splits)

lemma search_foods_cleaned:
  "clean_query q = Some c \<Longrightarrow> search_foods api q n = try_strategies api n (search_strategies c) []"
  using clean_query_Some [of q c] by (auto simp add: search_foods_def)



lemma api_crash_raises: "fst (run_strategy api_crash n calls s) = Inl ValueError"
  by (cases s) (simp add: run_strategy_def search_with_params_def api_crash_def Let_def)

text \<open>
  \<^bold>\<open>C2.\<close> Whatever the API does (an exception of any kind from the request or from decoding
  the body, any status code, any decoded body), \<^verbatim>\<open>search_foods\<close> returns a list and raises
  nothing. A strategy that raises is followed by the next strategy, and when every strategy
  yields nothing the result is the empty list.
\<close>

theorem search_never_raises:
  "(\<exists>foods calls. search_foods api q n = (Inr foods, calls))
   \<and> (\<forall>s rest calls e calls'.
        run_strategy api n calls s = (Inl e, calls') \<longrightarrow>
        try_strategies api n (s # rest) calls = try_strategies api n rest calls')
   \<and> (\<forall>c. clean_query q = Some c
          \<and> (\<forall>i<5. yields_nothing (fst (stage api n (search_strategies c) [] i)))
        \<longrightarrow> search_foods api q n = (Inr [], run_all api n (search_strategies c) []))"
proof (intro conjI allI impI)
  have "\<exists>foods calls'. try_strategies api n ss calls = (Inr foods, calls')" for ss calls
    by (induction ss arbitrary: calls) (auto split: prod.splits sum.splits)
  then show "\<exists>foods calls. search_foods api q n = (Inr foods, calls)"
    by (auto simp add: search_foods_def split: option.splits)
next
  fix s rest calls e calls'
  assume "run_strategy api n calls s = (Inl e, calls')"
  then show "try_strategies api n (s # rest) calls = try_strategies api n rest calls'"
    by simp
next
  fix c
  assume h: "clean_query q = Some c
     \<and> (\<forall>i<5. yields_nothing (fst (stage api n (search_strategies c) [] i)))"
  have len: "length (search_strategies c) = 5" by (simp add: search_strategies_def)
  from try_strategies_cases [of "search_strategies c" api n "[]"] h len
  show "search_foods api q n = (Inr [], run_all api n (search_strategies c) [])"
    by (auto simp add: search_foods_cleaned)
qed

theorem search_never_raises_witness:
  "run_strategy api_crash 10 [] (''apple'', None, False)
     = (Inl ValueError, [\<lparr>query_param = ''apple'', pageSize = 20, requireAllWords = False,
                           dataType_param = None\<rparr>])
   \<and> clean_query (Some ''apple'') = Some ''apple''
   \<and> yields_nothing (fst (stage api_crash 10 (search_strategies ''apple'') [] 0))
   \<and> yields_nothing (fst (stage api_crash 10 (search_strategies ''apple'') [] 4))
   \<and> fst (search_foods api_crash (Some ''apple'') 10) = Inr []"
proof -
  have h1: "run_strategy api_crash 10 [] (''apple'', None, False)
     = (Inl ValueError, [\<lparr>query_param = ''apple'', pageSize = 20, requireAllWords = False,
                           dataType_param = None\<rparr>])"
    by (simp add: run_strategy_def search_with_params_def api_crash_def Let_def)
  have h2: "clean_query (Some ''apple'') = Some ''apple''"
    by (simp add: string_eval)
  have h3: "\<forall>i<5. yields_nothing (fst (stage api_crash 10 (search_strategies ''apple'') [] i))"
    by (simp add: stage_def api_crash_raises yields_nothing_def)
  from search_never_raises [of api_crash "Some ''apple''" 10] h2 h3
  have "search_foods api_crash (Some ''apple'') 10
          = (Inr [], run_all api_crash 10 (search_strategies ''apple'') [])"
    by blast
  with h1 h2 h3 show ?thesis by simp
qed

lemma search_foods_chicken:
  "search_foods (api_ok chicken_body) (Some '' Chicken   breast '') 10 =
     (Inr [\<lparr>name = ''Chicken Breast, raw'',
             nutrients = [''calories'' \<mapsto> 120, ''protein'' \<mapsto> 0, ''carbs'' \<mapsto> 0, ''fat'' \<mapsto> 0],
             fdcId = JNum 1, dataType = JStr ''SR Legacy''\<rparr>,
           \<lparr>name = ''Eggs'',
             nutrients = [''calories'' \<mapsto> 143, ''protein'' \<mapsto> 0, ''carbs'' \<mapsto> 0, ''fat'' \<mapsto> 0],
             fdcId = JNum 1, dataType = JStr ''SR Legacy''\<rparr>],
      [\<lparr>query_param = ''Chicken breast'', pageSize = 20, requireAllWords = True,
         dataType_param = Some [''SR Legacy'']\<rparr>])"
  by (simp add: search_eval parse_eval string_eval)

lemma search_foods_strict:
  "search_foods (api_strict chicken_body) (Some ''chicken'') 1 =
     (Inr [\<lparr>name = ''Chicken Breast, raw'',
             nutrients = [''calories'' \<mapsto> 120, ''protein'' \<mapsto> 0, ''carbs'' \<mapsto> 0, ''fat'' \<mapsto> 0],
             fdcId = JNum 1, dataType = JStr ''SR Legacy''\<rparr>],
      [\<lparr>query_param = ''chicken'', pageSize = 2, requireAllWords = True,
         dataType_param = Some [''SR Legacy'']\<rparr>,
       \<lparr>query_param = ''chicken'', pageSize = 2, requireAllWords = False,
         dataType_param = Some [''SR Legacy'']\<rparr>])"
  by (simp add: search_eval parse_eval string_eval)

section \<open>Parsing and nutrient extraction\<close>

lemma exn_bind_Inr_iff: "exn_bind m f = Inr y \<longleftrightarrow> (\<exists>x. m = Inr x \<and> f x = Inr y)"
  by (cases m) auto

lemma parse_entry_Some:
  assumes "parse_entry fd seen = Inr (Some f)"
  shows "name f = entry_name fd" and "name f \<noteq> []" and "lower (name f) \<notin> seen"
    and "\<not> (falsy (nutrients f) ''calories'' \<and> falsy (nutrients f) ''protein'')"
    and "\<exists>nl. py_get fd ''foodNutrients'' (JArr []) = Inr nl
               \<and> extract_nutrients nl = Inr (nutrients f)"
  using assms
  by (auto simp add: parse_entry_def entry_name_def exn_bind_Inr_iff split: if_splits)


lemma parse_loop_length:
  "parse_loop es mr foods seen = Inr fs \<Longrightarrow> int (length foods) < max mr 1 \<Longrightarrow>
     int (length fs) \<le> max mr 1"
proof (induction es arbitrary: foods seen)
  case Nil
  then show ?case by simp
next
  case (Cons e es)
  show ?case
  proof (cases "parse_entry e seen")
    case (Inl x)
    with Cons.prems show ?thesis by simp
  next
    case (Inr r)
    show ?thesis
    proof (cases r)
      case None
      with Inr Cons.prems Cons.IH [of foods seen] show ?thesis by auto
    next
      case (Some g)
      show ?thesis
      proof (cases "mr \<le> int (length (foods @ [g]))")
        case True
        with Inr Some Cons.prems have "fs = foods @ [g]" by (simp add: Let_def)
        with Cons.prems show ?thesis by auto
      next
        case False
        with Inr Some Cons.prems
        have "parse_loop es mr (foods @ [g]) (insert (lower (name g)) seen) = Inr fs"
          by (simp add: Let_def)
        moreover from False have "int (length (foods @ [g])) < max mr 1" by simp
        ultimately show ?thesis by (rule Cons.IH)
      qed
    qed
  qed
qed

lemma parse_loop_distinct:
  "parse_loop es mr foods seen = Inr fs \<Longrightarrow>
   distinct (map (\<lambda>f. lower (name f)) foods) \<Longrightarrow>
   (\<lambda>f. lower (name f)) ` set foods \<subseteq> seen \<Longrightarrow>
     distinct (map (\<lambda>f. lower (name f)) fs)"
proof (induction es arbitrary: foods seen)
  case Nil
  then show ?case by simp
next
  case (Cons e es)
  show ?case
  proof (cases "parse_entry e seen")
    case (Inl x)
    with Cons.prems show ?thesis by simp
  next
    case (Inr r)
    show ?thesis
    proof (cases r)
      case None
      with Inr Cons.prems Cons.IH [of foods seen] show ?thesis by auto
    next
      case (Some g)
      with Inr have new: "lower (name g) \<notin> seen" by (simp add: parse_entry_Some(3))
      with Cons.prems(3) have d: "distinct (map (\<lambda>f. lower (name f)) (foods @ [g]))"
        using Cons.prems(2) by auto
      show ?thesis
      proof (cases "mr \<le> int (length (foods @ [g]))")
        case True
        with Inr Some Cons.prems have "fs = foods @ [g]" by (simp add: Let_def)
        with d show ?thesis by simp
      next
        case False
        with Inr Some Cons.prems
        have "parse_loop es mr (foods @ [g]) (insert (lower (name g)) seen) = Inr fs"
          by (simp add: Let_def)
        moreover from Cons.prems(3)
        have "(\<lambda>f. lower (name f)) ` set (foods @ [g]) \<subseteq> insert (lower (name g)) seen"
          by auto
        ultimately show ?thesis using d Cons.IH by blast
      qed
    qed
  qed
qed

lemma parse_loop_order:
  "parse_loop es mr foods seen = Inr fs \<Longrightarrow>
     \<exists>extra. fs = foods @ extra \<and> subseq (map name extra) (map entry_name es)"
proof (induction es arbitrary: foods seen)
  case Nil
  then show ?case by simp
next
  case (Cons e es)
  show ?case
  proof (cases "parse_entry e seen")
    case (Inl x)
    with Cons.prems show ?thesis by simp
  next
    case (Inr r)
    show ?thesis
    proof (cases r)
      case None
      with Inr Cons.prems have "parse_loop es mr foods seen = Inr fs" by simp
      from Cons.IH [OF this] obtain extra where
        "fs = foods @ extra" "subseq (map name extra) (map entry_name es)" by blast
      then show ?thesis by auto
    next
      case (Some g)
      with Inr have nm: "name g = entry_name e" by (simp add: parse_entry_Some(1))
      show ?thesis
      proof (cases "mr \<le> int (length (foods @ [g]))")
        case True
        with Inr Some Cons.prems have "fs = foods @ [g]" by (simp add: Let_def)
        with nm show ?thesis by (intro exI [of _ "[g]"]) simp
      next
        case False
        with Inr Some Cons.prems
        have "parse_loop es mr (foods @ [g]) (insert (lower (name g)) seen) = Inr fs"
          by (simp add: Let_def)
        from Cons.IH [OF this] obtain extra where
          e: "fs = (foods @ [g]) @ extra" "subseq (map name extra) (map entry_name es)"
          by blast
        with nm show ?thesis by (intro exI [of _ "g # extra"]) simp
      qed
    qed
  qed
qed


lemma unusable_query_no_search:
  "clean_query q = None \<Longrightarrow> search_foods api q n = (Inr [], [])"
  by (cases q) (auto simp add: search_foods_def Let_def split: if_splits)


lemma parse_food_data_props:
  assumes "parse_food_data body n = Inr fs"
  shows "distinct (map (\<lambda>f. lower (name f)) fs)"
    and "int (length fs) \<le> max n 1"
    and "\<exists>entries. response_entries body = Inr entries
           \<and> subseq (map name fs) (map entry_name entries)"
proof -
  from assms obtain entries where
    e: "response_entries body = Inr entries" and l: "parse_loop entries n [] {} = Inr fs"
    by (auto simp add: parse_food_data_def response_entries_def exn_bind_Inr_iff)
  from parse_loop_distinct [OF l] show "distinct (map (\<lambda>f. lower (name f)) fs)" by simp
  from parse_loop_length [OF l] show "int (length fs) \<le> max n 1" by simp
  from parse_loop_order [OF l] e
  show "\<exists>entries. response_entries body = Inr entries
           \<and> subseq (map name fs) (map entry_name entries)" by auto
qed

lemma catch_nonempty:
  "catch_request_exception r = Inr fs \<Longrightarrow> fs \<noteq> [] \<Longrightarrow> r = Inr fs"
  by (cases r) (auto split: if_splits)

lemma search_with_params_source:
  assumes "search_with_params api calls q n dts raw = (Inr fs, calls')" and "fs \<noteq> []"
  shows "\<exists>cs req r body. api cs req = Inr r \<and> status_code r = 200
            \<and> json_body r = Inr body \<and> parse_food_data body n = Inr fs"
proof -
  let ?p = "\<lparr>query_param = q, pageSize = min (n * 2) 50, requireAllWords = raw,
             dataType_param = truthy_types dts\<rparr>"
  from assms obtain cs req r where
    r: "api cs req = Inr r" "status_code r = 200"
      "catch_request_exception (exn_bind (json_body r) (\<lambda>data. parse_food_data data n)) = Inr fs"
    by (auto simp add: search_with_params_def Let_def split: sum.splits if_splits)
  from catch_nonempty [OF r(3) assms(2)]
  have "exn_bind (json_body r) (\<lambda>data. parse_food_data data n) = Inr fs" .
  then obtain body where "json_body r = Inr body" "parse_food_data body n = Inr fs"
    by (auto simp add: exn_bind_Inr_iff)
  with r show ?thesis by blast
qed

lemma try_strategies_source:
  "try_strategies api n ss calls = (Inr fs, calls') \<Longrightarrow> fs \<noteq> [] \<Longrightarrow>
     \<exists>cs req r body. api cs req = Inr r \<and> status_code r = 200
        \<and> json_body r = Inr body \<and> parse_food_data body n = Inr fs"
proof (induction ss arbitrary: calls)
  case Nil
  then show ?case by simp
next
  case (Cons s ss)
  obtain q dts raw where s: "s = (q, dts, raw)" by (cases s)
  show ?case
  proof (cases "yields_nothing (fst (run_strategy api n calls s))")
    case True
    with Cons.prems(1)
    have "try_strategies api n ss (snd (run_strategy api n calls s)) = (Inr fs, calls')"
      by (simp add: try_strategies_step del: try_strategies.simps)
    from Cons.IH [OF this Cons.prems(2)] show ?thesis .
  next
    case False
    with Cons.prems(1) have "run_strategy api n calls s = (Inr fs, calls')"
      by (simp add: try_strategies_step del: try_strategies.simps)
    with s have "search_with_params api calls q n dts raw = (Inr fs, calls')"
      by (simp add: run_strategy_def)
    from search_with_params_source [OF this Cons.prems(2)] show ?thesis .
  qed
qed

lemma search_foods_source:
  assumes "search_foods api q n = (Inr fs, calls)" and "fs \<noteq> []"
  shows "\<exists>cs req r body. api cs req = Inr r \<and> status_code r = 200
            \<and> json_body r = Inr body \<and> parse_food_data body n = Inr fs"
proof (cases "clean_query q")
  case None
  from unusable_query_no_search [OF None] assms show ?thesis by simp
next
  case (Some c)
  with assms have "try_strategies api n (search_strategies c) [] = (Inr fs, calls)"
    by (simp add: search_foods_cleaned)
  from try_strategies_source [OF this assms(2)] show ?thesis .
qed

















section \<open>Results of a search\<close>

lemma search_foods_length:
  assumes "search_foods api q n = (Inr foods, calls)"
  shows "int (length foods) \<le> max n 1"
proof (cases "foods = []")
  case True
  then show ?thesis by simp
next
  case False
  from search_foods_source [OF assms False] obtain body where
    "parse_food_data body n = Inr foods" by blast
  then show ?thesis by (rule parse_food_data_props(2))
qed

text \<open>
  \<^bold>\<open>C6.\<close> With \<^verbatim>\<open>max_results = 0\<close> the loop of \<^verbatim>\<open>_parse_food_data\<close> appends the first acceptable
  entry before it tests \<^verbatim>\<open>len(foods) >= max_results\<close>, so \<^verbatim>\<open>search_foods\<close> returns one record
  where the claim allows none (the request asks for a page of size 0). For
  \<^verbatim>\<open>max_results\<close> of 1 or more the cap holds (\<open>search_foods_length\<close>).
\<close>

theorem max_results_zero:
  "search_foods (api_ok chicken_body) (Some ''chicken'') 0 =
     (Inr [\<lparr>name = ''Chicken Breast, raw'',
             nutrients = [''calories'' \<mapsto> 120, ''protein'' \<mapsto> 0, ''carbs'' \<mapsto> 0, ''fat'' \<mapsto> 0],
             fdcId = JNum 1, dataType = JStr ''SR Legacy''\<rparr>],
      [\<lparr>query_param = ''chicken'', pageSize = 0, requireAllWords = True,
         dataType_param = Some [''SR Legacy'']\<rparr>])"
  by (simp add: search_eval parse_eval string_eval)









end
